theory Spec2Isabelle
  imports Main
begin

section \<open>Types associated with cffi support (numba/types/cffi.py)\<close>

text \<open>
  A shallow embedding of the five type classes of \<^verbatim>\<open>numba/types/cffi.py\<close>:
  \<^verbatim>\<open>CFFILibraryType\<close>, \<^verbatim>\<open>FFIType\<close>, \<^verbatim>\<open>CFFIStructInstanceType\<close>, \<^verbatim>\<open>CFFIPointer\<close> and
  \<^verbatim>\<open>CFFIStructRefType\<close>. Methods are named \<open>Class_method\<close>. A Python call either returns
  a value or raises; the outcome is a value of \<open>exn + 'a\<close>, \<open>Inl\<close> carrying the exception.
\<close>

subsection \<open>Exceptions and calls into external collaborators\<close>

text \<open>
  The module raises \<^verbatim>\<open>AttributeError\<close> in two places: explicitly in
  \<^verbatim>\<open>get_func_pointer\<close>, and implicitly in \<^verbatim>\<open>CFFILibraryType.__init__\<close>, where
  \<^verbatim>\<open>.group(1)\<close> is applied to the \<^verbatim>\<open>None\<close> that \<^verbatim>\<open>re.match\<close> returns on a mismatch. An
  external collaborator (the typing context, the symbol resolver) may raise any
  exception, an \<^verbatim>\<open>AttributeError\<close> included; the module has no \<^verbatim>\<open>try\<close>, so such an
  exception leaves the calling method as it is. \<open>OtherException\<close> is an exception of
  any other class, with its text.
\<close>

datatype exn = AttributeError string | OtherException string

type_synonym 'a result = "exn + 'a"

definition quote :: char where
  "quote = CHR 0x27"

subsection \<open>CFFILibraryType\<close>

text \<open>
  The library object handed to the constructor is external. The constructor uses three
  things of it: \<^verbatim>\<open>dir(lib)\<close>, \<^verbatim>\<open>getattr(lib, f)\<close> (of which only whether the value is a
  \<^verbatim>\<open>BuiltinFunctionType\<close> matters) and \<^verbatim>\<open>str(lib)\<close>.
\<close>

datatype pyobj = BuiltinFunction | OtherObject

record lib_object =
  lib_dir :: "string list"
  lib_getattr :: "string \<Rightarrow> pyobj"
  lib_str :: string

text \<open>\<^verbatim>\<open>types.Opaque\<close>, the base class of the two opaque types: it stores the name.\<close>

record Opaque =
  name :: string

record CFFILibraryType = Opaque +
  func_names :: "string set"
  lib_name :: string

text \<open>
  \<^verbatim>\<open>re.match(r"<Lib object for '([^']+)'>", str(lib))\<close>. \<^verbatim>\<open>re.match\<close> anchors the pattern
  at the start of the string only, so text after the closing \<^verbatim>\<open>'>\<close> is accepted. The
  pattern is a literal, then a greedy non-empty run of characters other than the quote,
  then the literal \<^verbatim>\<open>'>\<close>; the run cannot give a character back, because the character
  after a shorter run is not a quote. \<open>re_match_lib s\<close> is \<^verbatim>\<open>group(1)\<close> of the match, or
  \<open>None\<close> when there is no match.
\<close>

fun match_literal :: "string \<Rightarrow> string \<Rightarrow> string option" where
  "match_literal [] s = Some s"
| "match_literal (p # ps) [] = None"
| "match_literal (p # ps) (c # cs) = (if p = c then match_literal ps cs else None)"

definition re_match_lib :: "string \<Rightarrow> string option" where
  "re_match_lib s =
     (case match_literal (''<Lib object for '' @ [quote]) s of
        None \<Rightarrow> None
      | Some r \<Rightarrow>
          (let g = takeWhile (\<lambda>c. c \<noteq> quote) r in
           if g = [] then None
           else (case match_literal (quote # ''>'') (dropWhile (\<lambda>c. c \<noteq> quote) r) of
                   None \<Rightarrow> None
                 | Some rest \<Rightarrow> Some g)))"

text \<open>
  The same pattern read as a description of the text, independent of how the matcher
  runs: the representation starts with \<^verbatim>\<open><Lib object for 'NAME'>\<close> for a non-empty
  \<open>NAME\<close> without a quote.
\<close>

definition lib_repr :: "string \<Rightarrow> string" where
  "lib_repr nm = ''<Lib object for '' @ [quote] @ nm @ [quote] @ ''>''"

definition matches_lib_pattern :: "string \<Rightarrow> bool" where
  "matches_lib_pattern s =
     (\<exists>nm rest. nm \<noteq> [] \<and> quote \<notin> set nm \<and> s = lib_repr nm @ rest)"

definition NoneType_has_no_group :: string where
  "NoneType_has_no_group =
     [quote] @ ''NoneType'' @ [quote] @ '' object has no attribute '' @ [quote] @ ''group'' @ [quote]"

definition CFFILibraryType_init :: "lib_object \<Rightarrow> CFFILibraryType result" where
  "CFFILibraryType_init lib =
     (let fs = set (filter (\<lambda>f. lib_getattr lib f = BuiltinFunction) (lib_dir lib)) in
      case re_match_lib (lib_str lib) of
        None \<Rightarrow> Inl (AttributeError NoneType_has_no_group)
      | Some g \<Rightarrow>
          Inr \<lparr>name = ''cffi_lib<'' @ g @ ''>'', func_names = fs, lib_name = g\<rparr>)"

definition has_func :: "CFFILibraryType \<Rightarrow> string \<Rightarrow> bool" where
  "has_func self func_name = (func_name \<in> func_names self)"

text \<open>
  \<^verbatim>\<open>get_func_pointer\<close> of \<^verbatim>\<open>numba.typing.cffi_utils\<close>, the external symbol resolver, is the
  parameter \<open>resolver\<close>; it returns a pointer value or raises. The method returns, beside
  its outcome, the list of the names it called the resolver on: the error of line 26 is
  raised before any call, an exception of the resolver after one.
\<close>

definition CFFILibraryType_get_func_pointer ::
    "(string \<Rightarrow> 'ptr result) \<Rightarrow> CFFILibraryType \<Rightarrow> string \<Rightarrow> string list \<times> 'ptr result" where
  "CFFILibraryType_get_func_pointer resolver self func_name =
     (if \<not> func_name \<in> func_names self
      then ([], Inl (AttributeError
             (''Function '' @ func_name @ '' is not present in the library '' @ lib_name self)))
      else ([func_name], resolver func_name))"

subsection \<open>FFIType\<close>

text \<open>
  The ffi object is represented by its identity \<^verbatim>\<open>id(ffi)\<close>; \<open>hex\<close> is Python's \<^verbatim>\<open>hex\<close> on
  a non-negative integer.
\<close>

definition hex_digit :: "nat \<Rightarrow> char" where
  "hex_digit d = ''0123456789abcdef'' ! d"

fun hex_digits :: "nat \<Rightarrow> string" where
  "hex_digits n = (if n < 16 then [hex_digit n] else hex_digits (n div 16) @ [hex_digit (n mod 16)])"

declare hex_digits.simps [simp del]

definition hex :: "nat \<Rightarrow> string" where
  "hex n = ''0x'' @ hex_digits n"

record FFIType = Opaque +
  ffi :: nat

definition FFIType_init :: "nat \<Rightarrow> FFIType" where
  "FFIType_init ffi_id = \<lparr>name = ''FFI#'' @ hex ffi_id, ffi = ffi_id\<rparr>"

definition get_call_signatures :: "FFIType \<Rightarrow> 'sig list \<times> bool" where
  "get_call_signatures self = ([], True)"

subsection \<open>The types that take part in conversions\<close>

text \<open>
  \<open>HostType c k\<close> is a scalar or opaque type of the host's vocabulary, which has no
  \<^verbatim>\<open>dtype\<close> attribute: \<open>c\<close> is the name of its class and \<open>k\<close> its key, the two things
  the host compares. Two constants of the host that denote one type are one \<open>HostType\<close>.
  \<^verbatim>\<open>types.voidptr\<close> is the host's \<^verbatim>\<open>RawPointer('void*')\<close> and \<^verbatim>\<open>types.int32\<close> its
  \<^verbatim>\<open>Integer('int32')\<close>. A \<^verbatim>\<open>CFFIStructInstanceType\<close> is represented by the \<^verbatim>\<open>cname\<close> of
  its \<^verbatim>\<open>cffi_type\<close>; its \<^verbatim>\<open>struct\<close> field is the empty dictionary in every instance. The
  display names of the pointer classes are built on the name that the host's
  \<^verbatim>\<open>CPointer\<close> sets and are left out.
\<close>

datatype ty =
    HostType string string
  | CFFIStructInstanceType (cname: string)
  | CFFIPointer (dtype: ty) (owning: bool)
  | CFFIStructRefType (dtype: ty) (owning: bool) (ptrtype: ty)

definition voidptr :: ty where
  "voidptr = HostType ''RawPointer'' ''void*''"

text \<open>The class of an instance, \<^verbatim>\<open>self.__class__\<close>, and the name of a class.\<close>

datatype cls =
    HostClass string
  | CFFIStructInstanceType_class
  | CFFIPointer_class
  | CFFIStructRefType_class

fun class_of :: "ty \<Rightarrow> cls" where
  "class_of (HostType c k) = HostClass c"
| "class_of (CFFIStructInstanceType c) = CFFIStructInstanceType_class"
| "class_of (CFFIPointer d ow) = CFFIPointer_class"
| "class_of (CFFIStructRefType d ow p) = CFFIStructRefType_class"

fun class_name :: "cls \<Rightarrow> string" where
  "class_name (HostClass c) = c"
| "class_name CFFIStructInstanceType_class = ''CFFIStructInstanceType''"
| "class_name CFFIPointer_class = ''CFFIPointer''"
| "class_name CFFIStructRefType_class = ''CFFIStructRefType''"

fun isinstance_CFFIStructInstanceType :: "ty \<Rightarrow> bool" where
  "isinstance_CFFIStructInstanceType (CFFIStructInstanceType c) = True"
| "isinstance_CFFIStructInstanceType t = False"

text \<open>\<^verbatim>\<open>CFFIStructRefType\<close> is a subclass of \<^verbatim>\<open>CFFIPointer\<close>.\<close>

fun isinstance_CFFIPointer :: "ty \<Rightarrow> bool" where
  "isinstance_CFFIPointer (CFFIPointer d ow) = True"
| "isinstance_CFFIPointer (CFFIStructRefType d ow p) = True"
| "isinstance_CFFIPointer t = False"

fun isinstance_CFFIStructRefType :: "ty \<Rightarrow> bool" where
  "isinstance_CFFIStructRefType (CFFIStructRefType d ow p) = True"
| "isinstance_CFFIStructRefType t = False"

text \<open>The property \<^verbatim>\<open>CFFIPointer.key\<close>, inherited by \<^verbatim>\<open>CFFIStructRefType\<close>.\<close>

fun key :: "ty \<Rightarrow> ty \<times> bool" where
  "key (CFFIPointer d ow) = (d, ow)"
| "key (CFFIStructRefType d ow p) = (d, ow)"

text \<open>
  The classes that define no \<^verbatim>\<open>key\<close> of their own are identified by their name: the key
  of a host type, and the name that line 47 gives a \<^verbatim>\<open>CFFIStructInstanceType\<close>.
\<close>

fun default_key :: "ty \<Rightarrow> string" where
  "default_key (HostType c k) = k"
| "default_key (CFFIStructInstanceType c) = ''<instance> ('' @ c @ '')''"

text \<open>
  Modelled from the spec: the host's type equality (\<^verbatim>\<open>Type.__eq__\<close>, the \<^verbatim>\<open>==\<close> of the
  source, is not under src). The type variants are distinct kinds of type, so two types
  of different classes are different; two types of one class are equal when their keys
  are. For the two pointer classes the key is the \<open>key\<close> above, the pair that
  \<^verbatim>\<open>CFFIPointer.key\<close> returns, and two pairs are equal when their pointees are equal types
  and their ownership flags are the same; the back-reference of a struct reference is
  not part of the key.
\<close>

function type_eq :: "ty \<Rightarrow> ty \<Rightarrow> bool" where
  "type_eq s t =
     (class_of s = class_of t \<and>
      (if isinstance_CFFIPointer s
       then type_eq (fst (key s)) (fst (key t)) \<and> snd (key s) = snd (key t)
       else default_key s = default_key t))"
  by pat_completeness auto

termination
proof (relation "measure (\<lambda>(s, t). size s)")
  show "wf (measure (\<lambda>(s :: ty, t :: ty). size s))"
    by simp
next
  fix s t :: ty
  assume "isinstance_CFFIPointer s"
  then show "((fst (key s), fst (key t)), (s, t)) \<in> measure (\<lambda>(s, t). size s)"
    by (cases s) simp_all
qed

declare type_eq.simps [simp del]

text \<open>The \<^verbatim>\<open>==\<close> of two keys of pointer types, as a relation of its own.\<close>

definition key_eq :: "ty \<times> bool \<Rightarrow> ty \<times> bool \<Rightarrow> bool" where
  "key_eq k1 k2 = (type_eq (fst k1) (fst k2) \<and> snd k1 = snd k2)"

text \<open>
  Modelled from the spec: the verdicts of \<^verbatim>\<open>numba.typeconv.Conversion\<close> (not under src).
  The spec lists safe, unsafe and no-conversion; no-conversion is Python's \<^verbatim>\<open>None\<close>, the
  value of a method that falls off its end, so a verdict is a \<open>Conversion option\<close>.
\<close>

datatype Conversion = safe | unsafe

text \<open>
  The typing context is external: \<open>ctx a b\<close> is what \<^verbatim>\<open>typingctx.can_convert(a, b)\<close> gives,
  a verdict or an exception. To say whether the context was consulted, a query returns
  the list of the \<^verbatim>\<open>can_convert\<close> calls it made, in order, beside its outcome.
\<close>

type_synonym typingctx = "ty \<Rightarrow> ty \<Rightarrow> Conversion option result"

type_synonym query = "(ty \<times> ty) list \<times> Conversion option result"

definition returns :: "Conversion option \<Rightarrow> query" where
  "returns v = ([], Inr v)"

definition typingctx_can_convert :: "typingctx \<Rightarrow> ty \<Rightarrow> ty \<Rightarrow> query" where
  "typingctx_can_convert ctx fromty toty = ([(fromty, toty)], ctx fromty toty)"

subsection \<open>CFFIStructInstanceType\<close>

fun CFFIStructInstanceType_can_convert_to :: "ty \<Rightarrow> typingctx \<Rightarrow> ty \<Rightarrow> query" where
  "CFFIStructInstanceType_can_convert_to (CFFIStructInstanceType c) typingctx other =
     (if type_eq other voidptr then returns (Some safe) else returns None)"

fun CFFIStructInstanceType_can_convert_from :: "ty \<Rightarrow> typingctx \<Rightarrow> ty \<Rightarrow> query" where
  "CFFIStructInstanceType_can_convert_from (CFFIStructInstanceType c) typeingctx other =
     (if type_eq other voidptr then returns (Some safe) else returns None)"

subsection \<open>CFFIPointer and CFFIStructRefType\<close>

text \<open>
  \<^verbatim>\<open>CFFIPointer.__init__(self, dtype, owning=False)\<close>: the second argument is optional,
  \<open>None\<close> standing for a call that leaves it out.
\<close>

definition CFFIPointer_init :: "ty \<Rightarrow> bool option \<Rightarrow> ty" where
  "CFFIPointer_init d ow = CFFIPointer d (case ow of None \<Rightarrow> False | Some b \<Rightarrow> b)"

text \<open>The attribute lookup \<^verbatim>\<open>ptrtype.dtype\<close>, which raises on a type without the attribute.\<close>

definition has_no_dtype :: "ty \<Rightarrow> string" where
  "has_no_dtype t =
     [quote] @ class_name (class_of t) @ [quote] @ '' object has no attribute '' @
     [quote] @ ''dtype'' @ [quote]"

fun getattr_dtype :: "ty \<Rightarrow> ty result" where
  "getattr_dtype (CFFIPointer d ow) = Inr d"
| "getattr_dtype (CFFIStructRefType d ow p) = Inr d"
| "getattr_dtype t = Inl (AttributeError (has_no_dtype t))"

text \<open>
  \<^verbatim>\<open>CFFIStructRefType.__init__(self, ptrtype)\<close> calls the base constructor with the pointee
  alone, \<^verbatim>\<open>super().__init__(ptrtype.dtype)\<close>, and then stores \<^verbatim>\<open>ptrtype\<close>.
\<close>

definition CFFIStructRefType_init :: "ty \<Rightarrow> ty result" where
  "CFFIStructRefType_init p =
     (case getattr_dtype p of
        Inl e \<Rightarrow> Inl e
      | Inr d \<Rightarrow>
          (let base = CFFIPointer_init d None
           in Inr (CFFIStructRefType (dtype base) (owning base) p)))"

fun CFFIStructRefType_can_convert_to :: "ty \<Rightarrow> typingctx \<Rightarrow> ty \<Rightarrow> query" where
  "CFFIStructRefType_can_convert_to (CFFIStructRefType d ow p) typingctx other =
     (if isinstance_CFFIStructRefType other \<or> isinstance_CFFIStructInstanceType other
      then typingctx_can_convert typingctx d other
      else returns None)"

fun CFFIStructRefType_can_convert_from :: "ty \<Rightarrow> typingctx \<Rightarrow> ty \<Rightarrow> query" where
  "CFFIStructRefType_can_convert_from (CFFIStructRefType d ow p) typingctx other =
     (if isinstance_CFFIStructRefType other \<or> isinstance_CFFIStructInstanceType other
      then typingctx_can_convert typingctx d other
      else returns None)"

subsection \<open>Concrete inputs\<close>

text \<open>
  The inputs at which the theorems below are instantiated: the struct \<^verbatim>\<open>Node\<close> of the
  linked-list use case, a borrowed and an owning pointer to it, a reference built on
  the borrowed one, a typing context that accepts exactly equal types and one that
  raises, three library objects (one exporting \<^verbatim>\<open>sin\<close> and \<^verbatim>\<open>cos\<close> beside a non-function
  attribute, one with the representation of \<^verbatim>\<open>libfoo\<close>, one whose representation is not
  of that form), and two symbol resolvers, one that returns and one that raises.
\<close>

definition int32 :: ty where
  "int32 = HostType ''Integer'' ''int32''"

definition Node :: ty where
  "Node = CFFIStructInstanceType ''struct Node''"

definition Node_ptr :: ty where
  "Node_ptr = CFFIPointer Node False"

definition Node_owning_ptr :: ty where
  "Node_owning_ptr = CFFIPointer Node True"

definition Node_ref :: ty where
  "Node_ref = CFFIStructRefType Node False Node_ptr"

definition same_type_ctx :: typingctx where
  "same_type_ctx a b = Inr (if type_eq a b then Some safe else None)"

definition mathlib :: lib_object where
  "mathlib =
     \<lparr>lib_dir = [''__name__'', ''cos'', ''sin''],
      lib_getattr = (\<lambda>f. if f = ''sin'' \<or> f = ''cos'' then BuiltinFunction else OtherObject),
      lib_str = lib_repr ''mathlib''\<rparr>"

definition mathlib_type :: CFFILibraryType where
  "mathlib_type =
     \<lparr>name = ''cffi_lib<mathlib>'', func_names = {''cos'', ''sin''}, lib_name = ''mathlib''\<rparr>"

definition libfoo :: lib_object where
  "libfoo = \<lparr>lib_dir = [], lib_getattr = (\<lambda>f. OtherObject), lib_str = lib_repr ''libfoo''\<rparr>"

definition plain_module :: lib_object where
  "plain_module =
     \<lparr>lib_dir = [], lib_getattr = (\<lambda>f. OtherObject), lib_str = ''<module 'math' (built-in)>''\<rparr>"

definition length_resolver :: "string \<Rightarrow> nat result" where
  "length_resolver n = Inr (length n)"

definition failing_resolver :: "string \<Rightarrow> nat result" where
  "failing_resolver n = Inl (AttributeError (''undefined symbol '' @ n))"

definition failing_ctx :: typingctx where
  "failing_ctx a b = Inl (OtherException ''no conversion graph'')"

section \<open>Auxiliary facts\<close>

subsection \<open>The matcher against the pattern read as text\<close>

lemma match_literal_iff: "match_literal p s = Some r \<longleftrightarrow> s = p @ r"
  by (induction p s rule: match_literal.induct) auto

lemma takeWhile_upto: "x \<notin> set g \<Longrightarrow> takeWhile (\<lambda>c. c \<noteq> x) (g @ x # xs) = g"
  by (induction g) auto

lemma dropWhile_upto: "x \<notin> set g \<Longrightarrow> dropWhile (\<lambda>c. c \<noteq> x) (g @ x # xs) = x # xs"
  by (induction g) auto

lemma re_match_lib_iff:
  "re_match_lib s = Some g \<longleftrightarrow> g \<noteq> [] \<and> quote \<notin> set g \<and> (\<exists>rest. s = lib_repr g @ rest)"
proof
  assume m: "re_match_lib s = Some g"
  then obtain r where r: "match_literal (''<Lib object for '' @ [quote]) s = Some r"
    by (auto simp: re_match_lib_def split: option.splits)
  from m r have g: "g = takeWhile (\<lambda>c. c \<noteq> quote) r" and ne: "g \<noteq> []"
    by (auto simp: re_match_lib_def Let_def split: option.splits if_splits)
  from m r obtain rest where rest: "match_literal (quote # ''>'') (dropWhile (\<lambda>c. c \<noteq> quote) r) = Some rest"
    by (auto simp: re_match_lib_def Let_def split: option.splits if_splits)
  have "r = g @ dropWhile (\<lambda>c. c \<noteq> quote) r" by (simp add: g)
  also have "dropWhile (\<lambda>c. c \<noteq> quote) r = (quote # ''>'') @ rest"
    using rest by (simp only: match_literal_iff)
  finally have "r = g @ (quote # ''>'') @ rest" .
  moreover have "s = (''<Lib object for '' @ [quote]) @ r" using r by (simp only: match_literal_iff)
  ultimately have "s = lib_repr g @ rest" by (simp add: lib_repr_def)
  moreover have "quote \<notin> set g" unfolding g using set_takeWhileD by fastforce
  ultimately show "g \<noteq> [] \<and> quote \<notin> set g \<and> (\<exists>rest. s = lib_repr g @ rest)" using ne by blast
next
  assume "g \<noteq> [] \<and> quote \<notin> set g \<and> (\<exists>rest. s = lib_repr g @ rest)"
  then obtain rest where ne: "g \<noteq> []" and q: "quote \<notin> set g" and s: "s = lib_repr g @ rest" by blast
  let ?r = "g @ (quote # ''>'') @ rest"
  have s': "s = (''<Lib object for '' @ [quote]) @ ?r" by (simp add: s lib_repr_def)
  have 1: "match_literal (''<Lib object for '' @ [quote]) s = Some ?r"
    unfolding s' by (simp only: match_literal_iff)
  have tw: "takeWhile (\<lambda>c. c \<noteq> quote) ?r = g"
    using q by (simp add: takeWhile_upto)
  have dw: "dropWhile (\<lambda>c. c \<noteq> quote) ?r = (quote # ''>'') @ rest"
    using q by (simp add: dropWhile_upto)
  have 2: "match_literal (quote # ''>'') (dropWhile (\<lambda>c. c \<noteq> quote) ?r) = Some rest"
    unfolding dw by (simp only: match_literal_iff)
  show "re_match_lib s = Some g"
    unfolding re_match_lib_def 1 by (simp only: option.case Let_def tw 2 ne if_False)
qed

lemma matches_lib_pattern_iff: "matches_lib_pattern s \<longleftrightarrow> re_match_lib s \<noteq> None"
proof -
  have "re_match_lib s \<noteq> None \<longleftrightarrow> (\<exists>g. re_match_lib s = Some g)" by auto
  also have "\<dots> \<longleftrightarrow> matches_lib_pattern s"
    unfolding re_match_lib_iff matches_lib_pattern_def by blast
  finally show ?thesis by simp
qed

lemma init_func_names:
  "CFFILibraryType_init lib = Inr t \<Longrightarrow>
     func_names t = {f \<in> set (lib_dir lib). lib_getattr lib f = BuiltinFunction}"
  by (auto simp: CFFILibraryType_init_def Let_def split: option.splits)

lemma init_extracts_name:
  assumes "nm \<noteq> []" and "quote \<notin> set nm" and "lib_str lib = lib_repr nm @ rest"
  shows "\<exists>fs. CFFILibraryType_init lib =
           Inr \<lparr>name = ''cffi_lib<'' @ nm @ ''>'', func_names = fs, lib_name = nm\<rparr>"
proof -
  have "re_match_lib (lib_str lib) = Some nm"
    using assms by (auto simp: re_match_lib_iff)
  then show ?thesis by (simp add: CFFILibraryType_init_def Let_def)
qed

lemma init_mathlib: "CFFILibraryType_init mathlib = Inr mathlib_type"
  by (auto simp add: CFFILibraryType_init_def mathlib_def mathlib_type_def re_match_lib_def
      lib_repr_def quote_def)

subsection \<open>Type equality\<close>

lemma type_eq_pointer:
  "isinstance_CFFIPointer s \<Longrightarrow>
     type_eq s t = (class_of s = class_of t \<and> key_eq (key s) (key t))"
  by (subst type_eq.simps) (simp add: key_eq_def)

lemma type_eq_other_class [simp]: "class_of s \<noteq> class_of t \<Longrightarrow> type_eq s t = False"
  by (subst type_eq.simps) simp

lemma type_eq_HostType [simp]:
  "type_eq (HostType c1 k1) (HostType c2 k2) = (c1 = c2 \<and> k1 = k2)"
  by (subst type_eq.simps) simp

lemma type_eq_CFFIStructInstanceType [simp]:
  "type_eq (CFFIStructInstanceType a) (CFFIStructInstanceType b) = (a = b)"
  by (subst type_eq.simps) simp

lemma type_eq_CFFIPointer [simp]:
  "type_eq (CFFIPointer d1 o1) (CFFIPointer d2 o2) = (type_eq d1 d2 \<and> o1 = o2)"
  by (subst type_eq.simps) simp

lemma type_eq_CFFIStructRefType [simp]:
  "type_eq (CFFIStructRefType d1 o1 p1) (CFFIStructRefType d2 o2 p2) = (type_eq d1 d2 \<and> o1 = o2)"
  by (subst type_eq.simps) simp

lemma type_eq_refl: "type_eq t t"
  by (induction t) auto

lemma type_eq_voidptr: "type_eq t voidptr \<longleftrightarrow> t = voidptr"
  by (cases t) (auto simp: voidptr_def)

lemma pointer_key: "isinstance_CFFIPointer p \<Longrightarrow> key p = (dtype p, owning p)"
  by (cases p) simp_all

section \<open>The claims\<close>

text \<open>
  C1, as amended. For a \<^verbatim>\<open>CFFIStructRefType\<close> with pointee \<open>d\<close> and a type \<open>X\<close> that is a
  \<^verbatim>\<open>CFFIStructRefType\<close> or a \<^verbatim>\<open>CFFIStructInstanceType\<close>, \<^verbatim>\<open>can_convert_to\<close> and
  \<^verbatim>\<open>can_convert_from\<close> consult the typing context exactly once, with the arguments
  \<open>(d, X)\<close>, \<open>X\<close> itself and not its pointee, and return exactly what it gives. For every
  other \<open>X\<close> they return no-conversion and do not consult the typing context.
\<close>

theorem StructRef_can_convert_delegates:
  "(isinstance_CFFIStructRefType X \<or> isinstance_CFFIStructInstanceType X \<longrightarrow>
      CFFIStructRefType_can_convert_to (CFFIStructRefType d ow p) ctx X =
        ([(d, X)], ctx d X) \<and>
      CFFIStructRefType_can_convert_from (CFFIStructRefType d ow p) ctx X =
        ([(d, X)], ctx d X)) \<and>
   (\<not> (isinstance_CFFIStructRefType X \<or> isinstance_CFFIStructInstanceType X) \<longrightarrow>
      CFFIStructRefType_can_convert_to (CFFIStructRefType d ow p) ctx X = ([], Inr None) \<and>
      CFFIStructRefType_can_convert_from (CFFIStructRefType d ow p) ctx X = ([], Inr None))"
  by (simp add: typingctx_can_convert_def returns_def)

text \<open>
  An instance: asked about the by-value struct, about a reference and about a plain
  pointer.
\<close>

theorem StructRef_can_convert_delegates_witness:
  "isinstance_CFFIStructInstanceType Node \<and>
   CFFIStructRefType_can_convert_to Node_ref same_type_ctx Node = ([(Node, Node)], Inr (Some safe)) \<and>
   CFFIStructRefType_can_convert_from Node_ref same_type_ctx Node = ([(Node, Node)], Inr (Some safe)) \<and>
   isinstance_CFFIStructRefType Node_ref \<and>
   CFFIStructRefType_can_convert_to Node_ref same_type_ctx Node_ref = ([(Node, Node_ref)], Inr None) \<and>
   \<not> (isinstance_CFFIStructRefType Node_ptr \<or> isinstance_CFFIStructInstanceType Node_ptr) \<and>
   CFFIStructRefType_can_convert_to Node_ref same_type_ctx Node_ptr = ([], Inr None) \<and>
   CFFIStructRefType_can_convert_from Node_ref same_type_ctx Node_ptr = ([], Inr None)"
  using StructRef_can_convert_delegates [of Node Node False Node_ptr same_type_ctx]
    StructRef_can_convert_delegates [of Node_ref Node False Node_ptr same_type_ctx]
    StructRef_can_convert_delegates [of Node_ptr Node False Node_ptr same_type_ctx]
  by (simp add: Node_ref_def Node_def Node_ptr_def same_type_ctx_def)

text \<open>
  C1 as stated in the specification has the typing context asked about the pointee of
  \<open>X\<close>. On a reference to \<^verbatim>\<open>struct Node\<close>, asked about itself under a context that
  accepts equal types only, the method returns no-conversion (the context was asked
  about \<^verbatim>\<open>struct Node\<close> and the reference) where the query on the two pointees is safe.
\<close>

theorem StructRef_pointee_claim_counterexample:
  "isinstance_CFFIStructRefType Node_ref \<and>
   snd (CFFIStructRefType_can_convert_to Node_ref same_type_ctx Node_ref) = Inr None \<and>
   same_type_ctx (dtype Node_ref) (dtype Node_ref) = Inr (Some safe) \<and>
   snd (CFFIStructRefType_can_convert_to Node_ref same_type_ctx Node_ref) \<noteq>
     same_type_ctx (dtype Node_ref) (dtype Node_ref)"
  by (simp add: Node_ref_def Node_def Node_ptr_def same_type_ctx_def typingctx_can_convert_def)

text \<open>
  C2. For every \<^verbatim>\<open>CFFIStructInstanceType\<close> and every type \<open>T\<close>, \<^verbatim>\<open>can_convert_to\<close> returns
  safe if and only if \<open>T\<close> is \<^verbatim>\<open>types.voidptr\<close>, and no-conversion otherwise;
  \<^verbatim>\<open>can_convert_from\<close> obeys the same rule.
\<close>

theorem StructInstance_voidptr_only:
  "(snd (CFFIStructInstanceType_can_convert_to (CFFIStructInstanceType c) ctx T) = Inr (Some safe)
      \<longleftrightarrow> T = voidptr) \<and>
   (T \<noteq> voidptr \<longrightarrow>
      snd (CFFIStructInstanceType_can_convert_to (CFFIStructInstanceType c) ctx T) = Inr None) \<and>
   (snd (CFFIStructInstanceType_can_convert_from (CFFIStructInstanceType c) ctx T) = Inr (Some safe)
      \<longleftrightarrow> T = voidptr) \<and>
   (T \<noteq> voidptr \<longrightarrow>
      snd (CFFIStructInstanceType_can_convert_from (CFFIStructInstanceType c) ctx T) = Inr None)"
  by (simp add: type_eq_voidptr returns_def)

theorem StructInstance_voidptr_only_witness:
  "snd (CFFIStructInstanceType_can_convert_to Node same_type_ctx voidptr) = Inr (Some safe) \<and>
   int32 \<noteq> voidptr \<and>
   snd (CFFIStructInstanceType_can_convert_to Node same_type_ctx int32) = Inr None \<and>
   snd (CFFIStructInstanceType_can_convert_from Node same_type_ctx voidptr) = Inr (Some safe) \<and>
   snd (CFFIStructInstanceType_can_convert_from Node same_type_ctx int32) = Inr None"
  using StructInstance_voidptr_only [of "''struct Node''" same_type_ctx voidptr]
    StructInstance_voidptr_only [of "''struct Node''" same_type_ctx int32]
  by (simp add: Node_def int32_def voidptr_def)

text \<open>
  C3, as amended. Two \<^verbatim>\<open>CFFIPointer\<close> instances of one class (two plain pointers, or two
  struct references) whose keys (pointee, ownership) are equal compare equal, whether
  the keys are compared by Python's \<^verbatim>\<open>==\<close> (\<open>key_eq\<close>) or are the same value; any two
  \<^verbatim>\<open>CFFIPointer\<close> instances with equal pointees and different ownership flags compare
  unequal. The key of an instance is its pointee paired with its ownership flag.
\<close>

theorem CFFIPointer_key_equality:
  "isinstance_CFFIPointer p \<and> isinstance_CFFIPointer q \<longrightarrow>
     key p = (dtype p, owning p) \<and>
     (class_of p = class_of q \<and> key_eq (key p) (key q) \<longrightarrow> type_eq p q) \<and>
     (class_of p = class_of q \<and> key p = key q \<longrightarrow> type_eq p q) \<and>
     (type_eq (dtype p) (dtype q) \<and> owning p \<noteq> owning q \<longrightarrow> \<not> type_eq p q)"
proof (intro impI conjI)
  assume pq: "isinstance_CFFIPointer p \<and> isinstance_CFFIPointer q"
  then show "key p = (dtype p, owning p)"
    by (simp add: pointer_key)
  from pq have eq: "type_eq p q = (class_of p = class_of q \<and> key_eq (key p) (key q))"
    by (simp add: type_eq_pointer)
  show "type_eq p q" if "class_of p = class_of q \<and> key_eq (key p) (key q)"
    using that eq by simp
  show "type_eq p q" if "class_of p = class_of q \<and> key p = key q"
    using that eq by (simp add: key_eq_def type_eq_refl)
  show "\<not> type_eq p q" if "type_eq (dtype p) (dtype q) \<and> owning p \<noteq> owning q"
    using that eq pq by (simp add: key_eq_def pointer_key)
qed

text \<open>
  Instances: a borrowed pointer to \<^verbatim>\<open>int32\<close> built twice, with and without the optional
  argument, is one type, and the owning pointer is another; two references to
  \<^verbatim>\<open>struct Node\<close> built on different pointers have the same key and are one type.
\<close>

theorem CFFIPointer_key_equality_witness:
  "isinstance_CFFIPointer (CFFIPointer_init int32 None) \<and>
   class_of (CFFIPointer_init int32 None) = class_of (CFFIPointer_init int32 (Some False)) \<and>
   key (CFFIPointer_init int32 None) = key (CFFIPointer_init int32 (Some False)) \<and>
   type_eq (CFFIPointer_init int32 None) (CFFIPointer_init int32 (Some False)) \<and>
   type_eq int32 int32 \<and>
   owning (CFFIPointer_init int32 (Some True)) \<noteq> owning (CFFIPointer_init int32 None) \<and>
   \<not> type_eq (CFFIPointer_init int32 (Some True)) (CFFIPointer_init int32 None) \<and>
   isinstance_CFFIPointer Node_ref \<and>
   key_eq (key Node_ref) (key (CFFIStructRefType Node False Node_owning_ptr)) \<and>
   type_eq Node_ref (CFFIStructRefType Node False Node_owning_ptr)"
  using CFFIPointer_key_equality [of "CFFIPointer_init int32 None" "CFFIPointer_init int32 (Some False)"]
    CFFIPointer_key_equality [of "CFFIPointer_init int32 (Some True)" "CFFIPointer_init int32 None"]
    CFFIPointer_key_equality [of Node_ref "CFFIStructRefType Node False Node_owning_ptr"]
  by (simp add: CFFIPointer_init_def key_eq_def int32_def Node_ref_def Node_def)

text \<open>
  C3 as stated in the specification speaks of any two \<^verbatim>\<open>CFFIPointer\<close> instances, and a
  \<^verbatim>\<open>CFFIStructRefType\<close> is one. The borrowed pointer to \<^verbatim>\<open>struct Node\<close> and the reference
  to \<^verbatim>\<open>struct Node\<close> have the same key, and they are different types.
\<close>

theorem pointer_and_reference_counterexample:
  "isinstance_CFFIPointer Node_ptr \<and> isinstance_CFFIPointer Node_ref \<and>
   key Node_ptr = (Node, False) \<and> key Node_ref = (Node, False) \<and>
   key_eq (key Node_ptr) (key Node_ref) \<and>
   \<not> type_eq Node_ptr Node_ref"
  by (simp add: Node_ptr_def Node_ref_def Node_def key_eq_def)

text \<open>
  C4. \<^verbatim>\<open>has_func(n)\<close> holds if and only if \<open>n\<close> is in the set of function names recorded
  at construction (the names of \<^verbatim>\<open>dir(lib)\<close> whose value is a builtin function).
  \<^verbatim>\<open>get_func_pointer(n)\<close> raises its \<^verbatim>\<open>AttributeError\<close>, with the text
  \<^verbatim>\<open>Function n is not present in the library\<close> followed by the library's name and without
  calling the resolver, if and only if \<^verbatim>\<open>has_func(n)\<close> is false. Otherwise it calls the
  resolver once, on \<open>n\<close>, and its outcome is the resolver's: the value, or the exception
  the resolver raised, unchanged. So it raises at all if and only if the name is absent
  or the resolver raised.
\<close>

theorem get_func_pointer_iff_has_func:
  "(has_func t n \<longleftrightarrow> n \<in> func_names t) \<and>
   (CFFILibraryType_init lib = Inr t \<longrightarrow>
      (has_func t n \<longleftrightarrow> n \<in> set (lib_dir lib) \<and> lib_getattr lib n = BuiltinFunction)) \<and>
   (CFFILibraryType_get_func_pointer resolver t n =
      ([], Inl (AttributeError
             (''Function '' @ n @ '' is not present in the library '' @ lib_name t))) \<longleftrightarrow>
      \<not> has_func t n) \<and>
   (has_func t n \<longrightarrow>
      CFFILibraryType_get_func_pointer resolver t n = ([n], resolver n)) \<and>
   ((\<exists>e. snd (CFFILibraryType_get_func_pointer resolver t n) = Inl e) \<longleftrightarrow>
      \<not> has_func t n \<or> (\<exists>e. resolver n = Inl e))"
proof -
  have a: "has_func t n \<longleftrightarrow> n \<in> func_names t"
    by (simp add: has_func_def)
  have b: "CFFILibraryType_init lib = Inr t \<longrightarrow>
      (has_func t n \<longleftrightarrow> n \<in> set (lib_dir lib) \<and> lib_getattr lib n = BuiltinFunction)"
    by (auto simp: has_func_def dest: init_func_names)
  have c: "CFFILibraryType_get_func_pointer resolver t n =
      ([], Inl (AttributeError
             (''Function '' @ n @ '' is not present in the library '' @ lib_name t))) \<longleftrightarrow>
      \<not> has_func t n"
    by (simp add: has_func_def CFFILibraryType_get_func_pointer_def)
  have d: "has_func t n \<longrightarrow>
      CFFILibraryType_get_func_pointer resolver t n = ([n], resolver n)"
    by (simp add: has_func_def CFFILibraryType_get_func_pointer_def)
  have e: "(\<exists>e. snd (CFFILibraryType_get_func_pointer resolver t n) = Inl e) \<longleftrightarrow>
      \<not> has_func t n \<or> (\<exists>e. resolver n = Inl e)"
    by (simp add: has_func_def CFFILibraryType_get_func_pointer_def)
  from a b c d e show ?thesis by blast
qed

text \<open>
  Instances on the library that exports \<^verbatim>\<open>sin\<close> and \<^verbatim>\<open>cos\<close>: an absent name, an exported
  name under a resolver that returns, and an exported name under a resolver that raises
  an \<^verbatim>\<open>AttributeError\<close> of its own.
\<close>

theorem get_func_pointer_iff_has_func_witness:
  "CFFILibraryType_init mathlib = Inr mathlib_type \<and>
   has_func mathlib_type ''sin'' \<and>
   \<not> has_func mathlib_type ''tan'' \<and>
   \<not> has_func mathlib_type ''__name__'' \<and>
   CFFILibraryType_get_func_pointer length_resolver mathlib_type ''tan'' =
     ([], Inl (AttributeError ''Function tan is not present in the library mathlib'')) \<and>
   CFFILibraryType_get_func_pointer length_resolver mathlib_type ''sin'' = ([''sin''], Inr 3) \<and>
   CFFILibraryType_get_func_pointer failing_resolver mathlib_type ''sin'' =
     ([''sin''], Inl (AttributeError ''undefined symbol sin''))"
  using init_mathlib
    get_func_pointer_iff_has_func [of mathlib_type "''sin''" mathlib length_resolver]
    get_func_pointer_iff_has_func [of mathlib_type "''tan''" mathlib length_resolver]
    get_func_pointer_iff_has_func [of mathlib_type "''__name__''" mathlib length_resolver]
    get_func_pointer_iff_has_func [of mathlib_type "''sin''" mathlib failing_resolver]
  by (simp add: mathlib_def mathlib_type_def length_resolver_def failing_resolver_def)

text \<open>
  C5. When the textual representation of the library object does not match the pattern
  \<^verbatim>\<open><Lib object for 'NAME'>\<close> (matched as \<^verbatim>\<open>re.match\<close> does: at the start of the text,
  \<open>NAME\<close> non-empty and without a quote), the construction raises: the
  \<^verbatim>\<open>AttributeError\<close> of \<^verbatim>\<open>.group\<close> on \<^verbatim>\<open>None\<close>.
\<close>

theorem init_raises_on_mismatch:
  "\<not> matches_lib_pattern (lib_str lib) \<Longrightarrow>
     CFFILibraryType_init lib = Inl (AttributeError NoneType_has_no_group)"
  by (simp add: matches_lib_pattern_iff CFFILibraryType_init_def)

theorem init_raises_on_mismatch_witness:
  "\<not> matches_lib_pattern (lib_str plain_module) \<and>
   CFFILibraryType_init plain_module = Inl (AttributeError NoneType_has_no_group)"
proof -
  have "re_match_lib (lib_str plain_module) = None"
    by (simp add: plain_module_def re_match_lib_def quote_def)
  then have h: "\<not> matches_lib_pattern (lib_str plain_module)"
    by (simp add: matches_lib_pattern_iff)
  from h init_raises_on_mismatch [OF h] show ?thesis by simp
qed

text \<open>
  C6. When the textual representation of the library object is
  \<^verbatim>\<open><Lib object for 'libfoo'>\<close>, the construction succeeds and records the library name
  \<^verbatim>\<open>libfoo\<close>.
\<close>

theorem init_libfoo_name:
  "lib_str lib = ''<Lib object for 'libfoo'>'' \<Longrightarrow>
     \<exists>t. CFFILibraryType_init lib = Inr t \<and> lib_name t = ''libfoo'' \<and>
         name t = ''cffi_lib<libfoo>''"
proof -
  assume "lib_str lib = ''<Lib object for 'libfoo'>''"
  then have "lib_str lib = lib_repr ''libfoo'' @ []"
    by (simp add: lib_repr_def quote_def)
  with init_extracts_name [of "''libfoo''" lib "[]"]
  obtain fs where "CFFILibraryType_init lib =
      Inr \<lparr>name = ''cffi_lib<'' @ ''libfoo'' @ ''>'', func_names = fs, lib_name = ''libfoo''\<rparr>"
    by (auto simp: quote_def)
  then show ?thesis by simp
qed

theorem init_libfoo_name_witness:
  "lib_str libfoo = ''<Lib object for 'libfoo'>'' \<and>
   CFFILibraryType_init libfoo =
     Inr \<lparr>name = ''cffi_lib<libfoo>'', func_names = {}, lib_name = ''libfoo''\<rparr>"
proof -
  have h: "lib_str libfoo = ''<Lib object for 'libfoo'>''"
    by (simp add: libfoo_def lib_repr_def quote_def)
  from init_libfoo_name [OF h] obtain t where
    t: "CFFILibraryType_init libfoo = Inr t" "lib_name t = ''libfoo''" "name t = ''cffi_lib<libfoo>''"
    by blast
  from t(1) have "func_names t = {}"
    by (auto simp: CFFILibraryType_init_def libfoo_def split: option.splits)
  with t have "t = \<lparr>name = ''cffi_lib<libfoo>'', func_names = {}, lib_name = ''libfoo''\<rparr>"
    by simp
  with h t(1) show ?thesis by simp
qed

text \<open>
  C7. A negative answer of \<^verbatim>\<open>can_convert_to\<close> and \<^verbatim>\<open>can_convert_from\<close> is a normal result.
  On a \<^verbatim>\<open>CFFIStructInstanceType\<close> both always return, without consulting the context. On a
  \<^verbatim>\<open>CFFIStructRefType\<close> both return no-conversion when the other type is unrelated or
  when the context answers no-conversion, and the only exception that can come out of
  them is the one that the typing context itself raised, unchanged.
\<close>

theorem can_convert_never_raises_on_negative:
  "(\<exists>v. CFFIStructInstanceType_can_convert_to (CFFIStructInstanceType c) ctx T = ([], Inr v)) \<and>
   (\<exists>v. CFFIStructInstanceType_can_convert_from (CFFIStructInstanceType c) ctx T = ([], Inr v)) \<and>
   (\<not> (isinstance_CFFIStructRefType T \<or> isinstance_CFFIStructInstanceType T) \<or> ctx d T = Inr None \<longrightarrow>
      snd (CFFIStructRefType_can_convert_to (CFFIStructRefType d ow p) ctx T) = Inr None \<and>
      snd (CFFIStructRefType_can_convert_from (CFFIStructRefType d ow p) ctx T) = Inr None) \<and>
   (snd (CFFIStructRefType_can_convert_to (CFFIStructRefType d ow p) ctx T) = Inl e \<or>
    snd (CFFIStructRefType_can_convert_from (CFFIStructRefType d ow p) ctx T) = Inl e \<longrightarrow>
      ctx d T = Inl e)"
  by (auto simp: returns_def typingctx_can_convert_def)

theorem can_convert_never_raises_on_negative_witness:
  "CFFIStructInstanceType_can_convert_to Node same_type_ctx Node_ptr = ([], Inr None) \<and>
   CFFIStructInstanceType_can_convert_from Node same_type_ctx Node_ptr = ([], Inr None) \<and>
   same_type_ctx Node Node_ref = Inr None \<and>
   snd (CFFIStructRefType_can_convert_to Node_ref same_type_ctx Node_ref) = Inr None \<and>
   snd (CFFIStructRefType_can_convert_from Node_ref same_type_ctx Node_ref) = Inr None \<and>
   snd (CFFIStructRefType_can_convert_to Node_ref same_type_ctx int32) = Inr None \<and>
   failing_ctx Node Node = Inl (OtherException ''no conversion graph'') \<and>
   snd (CFFIStructRefType_can_convert_to Node_ref failing_ctx Node) =
     Inl (OtherException ''no conversion graph'')"
  using can_convert_never_raises_on_negative [of "''struct Node''" same_type_ctx Node_ptr Node False Node_ptr]
    can_convert_never_raises_on_negative [of "''struct Node''" same_type_ctx Node_ref Node False Node_ptr]
    can_convert_never_raises_on_negative [of "''struct Node''" same_type_ctx int32 Node False Node_ptr]
    can_convert_never_raises_on_negative [of "''struct Node''" failing_ctx Node Node False
      Node_ptr "OtherException ''no conversion graph''"]
  by (simp add: Node_ref_def Node_def Node_ptr_def int32_def same_type_ctx_def voidptr_def
      returns_def typingctx_can_convert_def failing_ctx_def)

text \<open>
  C8. For every \<^verbatim>\<open>FFIType\<close>, \<^verbatim>\<open>get_call_signatures\<close> returns the empty list of signatures
  paired with \<^verbatim>\<open>True\<close>.
\<close>

theorem get_call_signatures_empty_variadic:
  "get_call_signatures self = ([], True) \<and> get_call_signatures (FFIType_init i) = ([], True)"
  by (simp add: get_call_signatures_def)

text \<open>
  C9. Constructing a \<^verbatim>\<open>CFFIStructRefType\<close> from a \<^verbatim>\<open>CFFIPointer\<close> \<open>p\<close>, owning or not,
  gives a type whose ownership flag is \<^verbatim>\<open>False\<close> and whose key is the pointee of \<open>p\<close>
  paired with \<^verbatim>\<open>False\<close>.
\<close>

theorem StructRef_init_borrowed:
  "isinstance_CFFIPointer p \<Longrightarrow>
     CFFIStructRefType_init p = Inr (CFFIStructRefType (dtype p) False p) \<and>
     owning (CFFIStructRefType (dtype p) False p) = False \<and>
     key (CFFIStructRefType (dtype p) False p) = (dtype p, False)"
  by (cases p) (simp_all add: CFFIStructRefType_init_def CFFIPointer_init_def)

theorem StructRef_init_borrowed_witness:
  "isinstance_CFFIPointer Node_owning_ptr \<and> owning Node_owning_ptr \<and>
   CFFIStructRefType_init Node_owning_ptr = Inr (CFFIStructRefType Node False Node_owning_ptr) \<and>
   key (CFFIStructRefType Node False Node_owning_ptr) = (Node, False)"
  using StructRef_init_borrowed [of Node_owning_ptr]
  by (simp add: Node_owning_ptr_def)

text \<open>
  C10. On a \<^verbatim>\<open>CFFIStructRefType\<close>, \<^verbatim>\<open>can_convert_to\<close> and \<^verbatim>\<open>can_convert_from\<close> give the same
  result for every typing context and every other type; when they delegate, both make
  the one call \<^verbatim>\<open>typingctx.can_convert(self.dtype, other)\<close>, in this order of arguments.
\<close>

theorem StructRef_to_from_identical:
  "CFFIStructRefType_can_convert_to (CFFIStructRefType d ow p) ctx other =
     CFFIStructRefType_can_convert_from (CFFIStructRefType d ow p) ctx other \<and>
   (isinstance_CFFIStructRefType other \<or> isinstance_CFFIStructInstanceType other \<longrightarrow>
      CFFIStructRefType_can_convert_from (CFFIStructRefType d ow p) ctx other =
        typingctx_can_convert ctx d other \<and>
      fst (CFFIStructRefType_can_convert_from (CFFIStructRefType d ow p) ctx other) = [(d, other)])"
  by (simp add: typingctx_can_convert_def)

theorem StructRef_to_from_identical_witness:
  "isinstance_CFFIStructRefType Node_ref \<and>
   CFFIStructRefType_can_convert_to Node_ref same_type_ctx Node_ref =
     CFFIStructRefType_can_convert_from Node_ref same_type_ctx Node_ref \<and>
   fst (CFFIStructRefType_can_convert_from Node_ref same_type_ctx Node_ref) = [(Node, Node_ref)] \<and>
   (Node, Node_ref) \<noteq> (Node_ref, Node)"
  using StructRef_to_from_identical [of Node False Node_ptr same_type_ctx Node_ref]
  by (simp add: Node_ref_def Node_def Node_ptr_def)

end
